theory Spec2Isabelle
  imports Complex_Main "HOL-Library.Char_ord" "HOL-Library.List_Lexorder" "HOL-Library.Sublist"
    "HOL-Library.Multiset"
begin

section \<open>JSON documents as Python sees them\<close>

text \<open>
  \<open>json.load\<close> yields \<open>None\<close>, \<open>bool\<close>, \<open>int\<close>, \<open>float\<close>, \<open>str\<close>, \<open>list\<close> and
  \<open>dict\<close>. Python's \<open>int\<close> is unbounded. A \<open>float\<close> is represented by the exact rational
  it denotes: rounding to 53 bits, the infinities and NaN are not represented. A \<open>dict\<close> is
  an association list in insertion order, read with \<open>map_of\<close>; its keys are distinct, as
  \<open>json.load\<close> produces them. Strings are lists of 8-bit characters, so the text is ASCII.
\<close>

datatype json =
    JNull
  | JBool bool
  | JInt int
  | JFloat rat
  | JStr string
  | JArr "json list"
  | JObj "(string \<times> json) list"

type_synonym dict = "(string \<times> json) list"

datatype error =
    JSONDecodeError
  | ValidationError
  | TypeError
  | AttributeError
  | OverflowError
  | FileNotFoundError
  | ManifestNotFound
  | AlreadyExists json
  | ProjectNotFound string

text \<open>Truth value of an object, as \<open>not x\<close> and \<open>if x\<close> test it.\<close>

fun truthy :: "json \<Rightarrow> bool" where
  "truthy JNull = False"
| "truthy (JBool b) = b"
| "truthy (JInt n) = (n \<noteq> 0)"
| "truthy (JFloat r) = (r \<noteq> 0)"
| "truthy (JStr s) = (s \<noteq> [])"
| "truthy (JArr xs) = (xs \<noteq> [])"
| "truthy (JObj kvs) = (kvs \<noteq> [])"

text \<open>\<open>d.get(k, default)\<close> on a dict.\<close>

definition get_or :: "dict \<Rightarrow> string \<Rightarrow> json \<Rightarrow> json" where
  "get_or d k dflt = (case map_of d k of None \<Rightarrow> dflt | Some v \<Rightarrow> v)"

text \<open>
  \<open>x.get(k, default)\<close> on any value: only a dict has the method, every other JSON value
  raises AttributeError.
\<close>

fun py_get :: "json \<Rightarrow> string \<Rightarrow> json \<Rightarrow> error + json" where
  "py_get (JObj d) k dflt = Inr (get_or d k dflt)"
| "py_get _ k dflt = Inl AttributeError"

section \<open>Revenue parsing (dashboard.py, DashboardManager.parse_revenue)\<close>

definition is_digit :: "char \<Rightarrow> bool" where
  "is_digit c = (48 \<le> (of_char c :: nat) \<and> (of_char c :: nat) \<le> 57)"

definition digit_val :: "char \<Rightarrow> nat" where
  "digit_val c = of_char c - 48"

definition digits_val :: "string \<Rightarrow> nat" where
  "digits_val ds = foldl (\<lambda>a c. 10 * a + digit_val c) 0 ds"

text \<open>\<open>re.sub(r'[^\d.-]', '', s)\<close>: keep the digits, the dot and the minus sign.\<close>

definition keep_char :: "char \<Rightarrow> bool" where
  "keep_char c = (is_digit c \<or> c = CHR ''.'' \<or> c = CHR ''-'')"

definition re_sub_clean :: "string \<Rightarrow> string" where
  "re_sub_clean s = filter keep_char s"

text \<open>
  \<open>float(s)\<close> for a string made of digits, dots and minus signs, which is all that
  \<open>re_sub_clean\<close> leaves: an optional sign, then digits with an optional dot and more
  digits, at least one digit in all. \<open>None\<close> is ValueError.
\<close>

definition float_of_unsigned :: "string \<Rightarrow> rat option" where
  "float_of_unsigned body =
     (let ip = takeWhile is_digit body; rest = dropWhile is_digit body in
      case rest of
        [] \<Rightarrow> if ip = [] then None else Some (of_nat (digits_val ip))
      | c # fp \<Rightarrow>
          if c = CHR ''.'' \<and> list_all is_digit fp \<and> (ip \<noteq> [] \<or> fp \<noteq> [])
          then Some (of_nat (digits_val ip) + of_nat (digits_val fp) / 10 ^ length fp)
          else None)"

definition float_of_str :: "string \<Rightarrow> rat option" where
  "float_of_str s =
     (case s of
        c # body \<Rightarrow>
          if c = CHR ''-'' then map_option uminus (float_of_unsigned body)
          else float_of_unsigned s
      | [] \<Rightarrow> None)"

text \<open>
  \<open>float(n)\<close> for an int raises OverflowError when \<open>n\<close> rounds to a magnitude beyond the
  largest double, that is from \<open>2^1024 - 2^970\<close> on.
\<close>

definition float_of_int :: "int \<Rightarrow> error + rat" where
  "float_of_int n = (if 2 ^ 1024 - 2 ^ 970 \<le> \<bar>n\<bar> then Inl OverflowError else Inr (of_int n))"

text \<open>
  \<open>str(x)\<close> of a list or a dict is the \<open>repr\<close> of the container; it is the parameter
  \<open>py_str\<close>. A bool is an int for \<open>isinstance\<close>.
\<close>

definition parse_revenue :: "(json \<Rightarrow> string) \<Rightarrow> json \<Rightarrow> error + rat" where
  "parse_revenue py_str revenue_str =
     (if \<not> truthy revenue_str then Inr 0
      else case revenue_str of
          JBool b \<Rightarrow> float_of_int (if b then 1 else 0)
        | JInt n \<Rightarrow> float_of_int n
        | JFloat r \<Rightarrow> Inr r
        | _ \<Rightarrow>
           (let clean_str = re_sub_clean (case revenue_str of JStr s \<Rightarrow> s | _ \<Rightarrow> py_str revenue_str)
            in case (if clean_str \<noteq> [] then float_of_str clean_str else Some 0) of
                 Some r \<Rightarrow> Inr r
               | None \<Rightarrow> Inr 0))"

section \<open>The hub on disk and the controller (foundry_v11.py, FoundryOS)\<close>

text \<open>
  The text of a file is represented by what \<open>json.load\<close> makes of it: \<open>Garbage\<close> is text
  that raises JSONDecodeError, \<open>Document j\<close> is text that loads as \<open>j\<close>, and is what
  \<open>json.dump\<close> of \<open>j\<close> writes. Files can be read and written: failures of the operating
  system are not represented. \<open>mtime\<close> is the modification time in ISO 8601.
\<close>

datatype file_content = Garbage | Document json

record hub_file =
  fname :: string
  content :: file_content
  mtime :: string

text \<open>The lines that \<open>FoundryOS.log\<close> appends, without their time stamp and exception text.\<close>

datatype log_entry =
    InvalidJSON string
  | InvalidSchema string
  | FailedToLoad string
  | CreatedProject string
  | AssignedTask string string string

record assignment =
  a_id :: string
  a_task :: string
  a_project :: string
  a_agent :: string
  a_status :: string
  created_at :: string
  completed_at :: json
  a_result :: json

text \<open>
  \<open>projects_dir\<close> is \<open>None\<close> when the directory does not exist, else its files in the
  order the operating system lists them. \<open>shared_context\<close> holds the assignment files.
\<close>

record hub =
  projects_dir :: "hub_file list option"
  shared_context :: "(string \<times> assignment) list"
  hub_log :: "log_entry list"

text \<open>
  The controller object. \<open>schema\<close> is \<open>None\<close> when the schema file is absent or holds an
  empty schema (\<open>if self.schema\<close> is false), else the test that \<open>jsonschema.validate\<close>
  passes. \<open>agents\<close> are the keys of the configuration's agent registry and
  \<open>projects_path\<close> is \<open>str(self.projects_dir)\<close>.
\<close>

record foundry =
  schema :: "(json \<Rightarrow> bool) option"
  agents :: "string list"
  projects_path :: string

subsection \<open>Strings\<close>

definition lower_char :: "char \<Rightarrow> char" where
  "lower_char c =
     (if 65 \<le> (of_char c :: nat) \<and> (of_char c :: nat) \<le> 90
      then char_of (of_char c + (32 :: nat)) else c)"

definition lower :: "string \<Rightarrow> string" where
  "lower s = map lower_char s"

definition replace :: "char \<Rightarrow> char \<Rightarrow> string \<Rightarrow> string" where
  "replace old new s = map (\<lambda>c. if c = old then new else c) s"

text \<open>\<open>glob("*.json")\<close>: the names that end in \<open>.json\<close>.\<close>

definition is_json_name :: "string \<Rightarrow> bool" where
  "is_json_name n = (drop (length n - 5) n = ''.json'')"

definition glob_json :: "hub_file list \<Rightarrow> hub_file list" where
  "glob_json files = filter (\<lambda>f. is_json_name (fname f)) files"

subsection \<open>discover_projects\<close>

text \<open>\<open>d[k] = v\<close>: an existing key keeps its place, a new key goes to the end.\<close>

fun dict_set :: "dict \<Rightarrow> string \<Rightarrow> json \<Rightarrow> dict" where
  "dict_set [] k v = [(k, v)]"
| "dict_set ((k', v') # d) k v = (if k' = k then (k, v) # d else (k', v') # dict_set d k v)"

definition schema_rejects :: "foundry \<Rightarrow> json \<Rightarrow> bool" where
  "schema_rejects F project_data =
     (case schema F of None \<Rightarrow> False | Some valid \<Rightarrow> \<not> valid project_data)"

definition manifest_path :: "foundry \<Rightarrow> hub_file \<Rightarrow> string" where
  "manifest_path F f = projects_path F @ ''/'' @ fname f"

text \<open>
  The body of the loop for one file: \<open>Inr\<close> is the project appended, \<open>Inl\<close> the line
  logged by the handler that catches. Storing the metadata raises TypeError on a
  document that is not a dict, which the last handler (\<open>except Exception\<close>) catches.
\<close>

definition load_manifest :: "foundry \<Rightarrow> hub_file \<Rightarrow> log_entry + dict" where
  "load_manifest F manifest_file =
     (case content manifest_file of
        Garbage \<Rightarrow> Inl (InvalidJSON (manifest_path F manifest_file))
      | Document project_data \<Rightarrow>
          if schema_rejects F project_data
          then Inl (InvalidSchema (manifest_path F manifest_file))
          else (case project_data of
                  JObj d \<Rightarrow>
                    Inr (dict_set
                          (dict_set d ''_manifest_file'' (JStr (manifest_path F manifest_file)))
                          ''_last_modified'' (JStr (mtime manifest_file)))
                | _ \<Rightarrow> Inl (FailedToLoad (manifest_path F manifest_file))))"

fun scan :: "foundry \<Rightarrow> hub_file list \<Rightarrow> dict list \<times> log_entry list" where
  "scan F [] = ([], [])"
| "scan F (manifest_file # rest) =
     (case load_manifest F manifest_file of
        Inl line \<Rightarrow> (fst (scan F rest), line # snd (scan F rest))
      | Inr project_data \<Rightarrow> (project_data # fst (scan F rest), snd (scan F rest)))"

text \<open>
  \<open>sorted(projects, key=lambda x: x.get('projectName', ''))\<close>. The sort is stable and
  compares the keys with \<open><\<close>: strings by code point, numbers (bools among them) by
  value. With two or more projects, a key that is None or a dict, or keys of different
  kinds, raise TypeError; one project alone is never compared. Keys that are all lists
  are not covered: the model answers TypeError there as well.
\<close>

definition name_key :: "dict \<Rightarrow> json" where
  "name_key x = get_or x ''projectName'' (JStr [])"

fun is_str :: "json \<Rightarrow> bool" where
  "is_str (JStr s) = True"
| "is_str _ = False"

fun the_str :: "json \<Rightarrow> string" where
  "the_str (JStr s) = s"
| "the_str _ = []"

fun num_val :: "json \<Rightarrow> rat option" where
  "num_val (JBool b) = Some (if b then 1 else 0)"
| "num_val (JInt n) = Some (of_int n)"
| "num_val (JFloat r) = Some r"
| "num_val _ = None"

definition sorted_by_name :: "dict list \<Rightarrow> error + dict list" where
  "sorted_by_name projects =
     (if length projects \<le> 1 then Inr projects
      else if list_all (\<lambda>x. is_str (name_key x)) projects
      then Inr (sort_key (\<lambda>x. the_str (name_key x)) projects)
      else if list_all (\<lambda>x. num_val (name_key x) \<noteq> None) projects
      then Inr (sort_key (\<lambda>x. the (num_val (name_key x))) projects)
      else Inl TypeError)"

text \<open>
  The result and the hub afterwards; the lines of the skipped files are in the log also
  when the sort raises.
\<close>

definition discover_projects :: "foundry \<Rightarrow> hub \<Rightarrow> (error + dict list) \<times> hub" where
  "discover_projects F H =
     (case projects_dir H of
        None \<Rightarrow> (Inr [], H)
      | Some files \<Rightarrow>
          (sorted_by_name (fst (scan F (glob_json files))),
           H\<lparr>hub_log := hub_log H @ snd (scan F (glob_json files))\<rparr>))"

subsection \<open>find_project\<close>



section \<open>Aggregation (dashboard.py, DashboardManager.get_empire_analytics)\<close>

text \<open>
  \<open>self.foundry\<close> is the \<open>FoundryOS\<close> of foundry_v11.py; the stand-in class that
  dashboard.py defines when that import fails is not modelled.
\<close>

definition and_then :: "error + 'a \<Rightarrow> ('a \<Rightarrow> error + 'b) \<Rightarrow> error + 'b" where
  "and_then r f = (case r of Inl e \<Rightarrow> Inl e | Inr x \<Rightarrow> f x)"

subsection \<open>Counting in a dict\<close>

text \<open>
  A counting dict, in insertion order. Its keys are whatever the manifests hold: a list
  or a dict is unhashable and raises TypeError, and Python takes \<open>1\<close>, \<open>1.0\<close> and \<open>True\<close>
  for the same key.
\<close>

type_synonym counts = "(json \<times> nat) list"

fun hashable :: "json \<Rightarrow> bool" where
  "hashable (JArr xs) = False"
| "hashable (JObj d) = False"
| "hashable _ = True"

definition key_eq :: "json \<Rightarrow> json \<Rightarrow> bool" where
  "key_eq a b = (case num_val a of Some x \<Rightarrow> num_val b = Some x | None \<Rightarrow> a = b)"

text \<open>\<open>counts[k] = counts.get(k, 0) + 1\<close>\<close>

fun bump :: "counts \<Rightarrow> json \<Rightarrow> counts" where
  "bump [] k = [(k, 1)]"
| "bump ((k', n) # rest) k =
     (if key_eq k' k then (k', n + 1) # rest else (k', n) # bump rest k)"

definition count_key :: "counts \<Rightarrow> json \<Rightarrow> error + counts" where
  "count_key c k = (if hashable k then Inr (bump c k) else Inl TypeError)"

fun count_keys :: "counts \<Rightarrow> json list \<Rightarrow> error + counts" where
  "count_keys c [] = Inr c"
| "count_keys c (k # ks) = and_then (count_key c k) (\<lambda>c'. count_keys c' ks)"

text \<open>
  \<open>for x in v\<close>: a list gives its elements, a string its characters, a dict its keys;
  anything else is not iterable.
\<close>

fun py_iter :: "json \<Rightarrow> error + json list" where
  "py_iter (JArr xs) = Inr xs"
| "py_iter (JStr s) = Inr (map (\<lambda>c. JStr [c]) s)"
| "py_iter (JObj d) = Inr (map (\<lambda>kv. JStr (fst kv)) d)"
| "py_iter _ = Inl TypeError"

text \<open>\<open>project.get('status') not in ['archived', 'completed']\<close>\<close>

definition is_active :: "dict \<Rightarrow> bool" where
  "is_active project =
     (map_of project ''status'' \<noteq> Some (JStr ''archived'') \<and>
      map_of project ''status'' \<noteq> Some (JStr ''completed''))"

subsection \<open>The loops of get_empire_analytics\<close>

record rev_entry =
  name :: json
  revenue :: rat
  status :: json
  users :: json

definition rev_entry_of :: "dict \<Rightarrow> dict \<Rightarrow> rat \<Rightarrow> rev_entry" where
  "rev_entry_of project metrics r =
     \<lparr>name = get_or project ''projectName'' (JStr ''Unknown''),
      revenue = r,
      status = get_or project ''status'' (JStr ''unknown''),
      users = get_or metrics ''users'' (JInt 0)\<rparr>"

text \<open>Revenue analysis; the accumulator is \<open>(total_revenue, revenue_projects)\<close>.\<close>

fun revenue_loop ::
  "(json \<Rightarrow> string) \<Rightarrow> dict list \<Rightarrow> rat \<times> rev_entry list \<Rightarrow> error + rat \<times> rev_entry list"
where
  "revenue_loop py_str [] acc = Inr acc"
| "revenue_loop py_str (project # rest) acc =
     (case get_or project ''metrics'' (JObj []) of
        JObj metrics \<Rightarrow>
          and_then (parse_revenue py_str (get_or metrics ''revenue'' (JInt 0)))
            (\<lambda>r. revenue_loop py_str rest
                   (fst acc + r,
                    if r > 0 then snd acc @ [rev_entry_of project metrics r] else snd acc))
      | _ \<Rightarrow> Inl AttributeError)"

text \<open>Status distribution.\<close>

definition status_key :: "dict \<Rightarrow> json" where
  "status_key project = get_or project ''status'' (JStr ''unknown'')"

text \<open>Task priorities of one project.\<close>

fun count_priorities :: "counts \<Rightarrow> json list \<Rightarrow> error + counts" where
  "count_priorities c [] = Inr c"
| "count_priorities c (task # tasks) =
     and_then (py_get task ''priority'' (JStr ''medium''))
       (\<lambda>priority. and_then (count_key c priority) (\<lambda>c'. count_priorities c' tasks))"

text \<open>Agent workload; the accumulator is \<open>(agent_workload, task_distribution)\<close>.\<close>

fun workload_loop :: "dict list \<Rightarrow> counts \<times> counts \<Rightarrow> error + counts \<times> counts" where
  "workload_loop [] acc = Inr acc"
| "workload_loop (project # rest) acc =
     (if is_active project
      then and_then (py_iter (get_or project ''team'' (JArr [])))
        (\<lambda>team. and_then (count_keys (fst acc) team)
        (\<lambda>agent_workload. and_then (py_get (get_or project ''tasks'' (JObj [])) ''active'' (JArr []))
        (\<lambda>active. and_then (py_iter active)
        (\<lambda>tasks. and_then (count_priorities (snd acc) tasks)
        (\<lambda>task_distribution. workload_loop rest (agent_workload, task_distribution))))))
      else workload_loop rest acc)"

text \<open>
  Growth metrics. \<open>growth_data\<close> is read by no statement below and is not part of the
  record; its loop is kept for the way it can end the call: \<open>strptime\<close> raises TypeError
  on a start date that is true and not a string. A string either parses or raises the
  ValueError that is caught, and \<open>parse_revenue\<close> has returned on the same value before.
\<close>

fun growth_check :: "dict list \<Rightarrow> error + unit" where
  "growth_check [] = Inr ()"
| "growth_check (project # rest) =
     and_then (py_get (get_or project ''metrics'' (JObj [])) ''startDate'' JNull)
       (\<lambda>start_date.
          if truthy start_date \<and> \<not> is_str start_date then Inl TypeError
          else growth_check rest)"

record analytics =
  total_projects :: nat
  active_projects :: nat
  total_revenue :: rat
  revenue_projects :: "rev_entry list"
  status_distribution :: counts
  agent_workload :: counts
  task_distribution :: counts
  projects :: "dict list"

definition initial_task_distribution :: counts where
  "initial_task_distribution =
     [(JStr ''high'', 0), (JStr ''medium'', 0), (JStr ''low'', 0), (JStr ''critical'', 0)]"

definition empire_analytics :: "(json \<Rightarrow> string) \<Rightarrow> dict list \<Rightarrow> error + analytics" where
  "empire_analytics py_str ps =
     and_then (revenue_loop py_str ps (0, []))
       (\<lambda>rev. and_then (count_keys [] (map status_key ps))
       (\<lambda>status_counts. and_then (workload_loop ps ([], initial_task_distribution))
       (\<lambda>work. and_then (growth_check ps)
       (\<lambda>_. Inr \<lparr>total_projects = length ps,
                  active_projects = length (filter is_active ps),
                  total_revenue = fst rev,
                  revenue_projects = snd rev,
                  status_distribution = status_counts,
                  agent_workload = fst work,
                  task_distribution = snd work,
                  projects = ps\<rparr>))))"

definition get_empire_analytics ::
  "(json \<Rightarrow> string) \<Rightarrow> foundry \<Rightarrow> hub \<Rightarrow> (error + analytics) \<times> hub"
where
  "get_empire_analytics py_str F H =
     (case discover_projects F H of
        (Inl e, H') \<Rightarrow> (Inl e, H')
      | (Inr ps, H') \<Rightarrow> (empire_analytics py_str ps, H'))"

section \<open>Aggregation of the command line (foundry_v11.py, FoundryOS.get_empire_status)\<close>

text \<open>
  The older aggregation, behind the command \<open>status\<close>. Its revenue step is written in
  place: only a string that starts with \<open>$\<close> is parsed, after removing \<open>$\<close> and commas,
  and \<open>revenue_projects\<close> counts the strings parsed. \<open>startswith\<close> exists on strings
  only, so a revenue that is true and not a string raises AttributeError. \<open>py_float\<close> is
  Python's \<open>float\<close> on a string, \<open>None\<close> for the ValueError that is caught.
\<close>

definition strip_currency :: "string \<Rightarrow> string" where
  "strip_currency s = filter (\<lambda>c. c \<noteq> CHR '','') (filter (\<lambda>c. c \<noteq> CHR ''$'') s)"

fun status_revenue_loop ::
  "(string \<Rightarrow> rat option) \<Rightarrow> dict list \<Rightarrow> rat \<times> nat \<Rightarrow> error + rat \<times> nat"
where
  "status_revenue_loop py_float [] acc = Inr acc"
| "status_revenue_loop py_float (project # rest) acc =
     and_then (py_get (get_or project ''metrics'' (JObj [])) ''revenue'' (JStr ''$0''))
       (\<lambda>revenue_str.
          if \<not> truthy revenue_str then status_revenue_loop py_float rest acc
          else case revenue_str of
                 JStr s \<Rightarrow>
                   if take 1 s = ''$''
                   then (case py_float (strip_currency s) of
                           Some r \<Rightarrow> status_revenue_loop py_float rest (fst acc + r, snd acc + 1)
                         | None \<Rightarrow> status_revenue_loop py_float rest acc)
                   else status_revenue_loop py_float rest acc
               | _ \<Rightarrow> Inl AttributeError)"

text \<open>Team utilization: the loop over the teams alone.\<close>

fun team_loop :: "dict list \<Rightarrow> counts \<Rightarrow> error + counts" where
  "team_loop [] workload = Inr workload"
| "team_loop (project # rest) workload =
     (if is_active project
      then and_then (py_iter (get_or project ''team'' (JArr [])))
             (\<lambda>team. and_then (count_keys workload team) (team_loop rest))
      else team_loop rest workload)"

record empire_status =
  es_total_projects :: nat
  es_active_projects :: nat
  es_total_revenue :: rat
  es_revenue_projects :: nat
  es_status_distribution :: counts
  es_agent_workload :: counts
  es_projects :: "dict list"

definition empire_status_of :: "(string \<Rightarrow> rat option) \<Rightarrow> dict list \<Rightarrow> error + empire_status" where
  "empire_status_of py_float ps =
     and_then (status_revenue_loop py_float ps (0, 0))
       (\<lambda>rev. and_then (count_keys [] (map status_key ps))
       (\<lambda>status_counts. and_then (team_loop ps [])
       (\<lambda>work. Inr \<lparr>es_total_projects = length ps,
                     es_active_projects = length (filter is_active ps),
                     es_total_revenue = fst rev,
                     es_revenue_projects = snd rev,
                     es_status_distribution = status_counts,
                     es_agent_workload = work,
                     es_projects = ps\<rparr>)))"

definition get_empire_status ::
  "(string \<Rightarrow> rat option) \<Rightarrow> foundry \<Rightarrow> hub \<Rightarrow> (error + empire_status) \<times> hub"
where
  "get_empire_status py_float F H =
     (case discover_projects F H of
        (Inl e, H') \<Rightarrow> (Inl e, H')
      | (Inr ps, H') \<Rightarrow> (empire_status_of py_float ps, H'))"

section \<open>Writers\<close>

text \<open>\<open>open(path, 'w')\<close> and \<open>json.dump\<close>: an existing file is replaced, a new one is added.\<close>

fun write_file :: "hub_file list \<Rightarrow> string \<Rightarrow> file_content \<Rightarrow> string \<Rightarrow> hub_file list" where
  "write_file [] n c t = [\<lparr>fname = n, content = c, mtime = t\<rparr>]"
| "write_file (f # fs) n c t =
     (if fname f = n then \<lparr>fname = n, content = c, mtime = t\<rparr> # fs
      else f # write_file fs n c t)"

definition file_exists :: "hub_file list \<Rightarrow> string \<Rightarrow> bool" where
  "file_exists files n = (n \<in> set (map fname files))"

definition read_file :: "hub_file list \<Rightarrow> string \<Rightarrow> file_content option" where
  "read_file files n = map_option content (find (\<lambda>f. fname f = n) files)"

subsection \<open>create_project_from_manifest (foundry_v11.py)\<close>

definition project_id :: "string \<Rightarrow> string" where
  "project_id project_name = replace CHR '' '' CHR ''_'' (lower project_name)"

text \<open>
  \<open>manifest\<close> is the file at \<open>manifest_path\<close>, \<open>None\<close> when there is none; \<open>now\<close> is the time
  of the write. The exceptions are not caught here (the command \<open>new\<close> reports them).
\<close>

definition create_project_from_manifest ::
  "foundry \<Rightarrow> hub \<Rightarrow> file_content option \<Rightarrow> string \<Rightarrow> (error + json) \<times> hub"
where
  "create_project_from_manifest F H manifest now =
     (case manifest of
        None \<Rightarrow> (Inl ManifestNotFound, H)
      | Some Garbage \<Rightarrow> (Inl JSONDecodeError, H)
      | Some (Document project_data) \<Rightarrow>
          if schema_rejects F project_data then (Inl ValidationError, H)
          else (case py_get project_data ''projectName'' (JStr ''unknown'') of
                  Inl e \<Rightarrow> (Inl e, H)
                | Inr (JStr project_name) \<Rightarrow>
                    (case projects_dir H of
                       None \<Rightarrow> (Inl FileNotFoundError, H)
                     | Some files \<Rightarrow>
                         if file_exists files (project_id project_name @ ''.json'')
                         then (Inl (AlreadyExists (JStr project_name)), H)
                         else (Inr project_data,
                               H\<lparr>projects_dir :=
                                    Some (write_file files (project_id project_name @ ''.json'')
                                            (Document project_data) now),
                                  hub_log := hub_log H @ [CreatedProject project_name]\<rparr>))
                | Inr _ \<Rightarrow> (Inl AttributeError, H)))"

subsection \<open>The dashboard's writers (dashboard.py, render_sidebar)\<close>

text \<open>
  Upload Manifest: the whole block is inside \<open>try\<close> / \<open>except Exception\<close>, which shows the
  error and leaves the directory as it is.
\<close>

definition upload_manifest :: "hub \<Rightarrow> file_content \<Rightarrow> string \<Rightarrow> hub" where
  "upload_manifest H uploaded_file now =
     (case uploaded_file of
        Garbage \<Rightarrow> H
      | Document project_data \<Rightarrow>
          (case py_get project_data ''projectName'' (JStr ''unknown'') of
             Inr (JStr project_name) \<Rightarrow>
               (case projects_dir H of
                  None \<Rightarrow> H
                | Some files \<Rightarrow>
                    H\<lparr>projects_dir :=
                         Some (write_file files (project_id project_name @ ''.json'')
                                 (Document project_data) now)\<rparr>)
           | _ \<Rightarrow> H))"

text \<open>Create New Project: the form's manifest, with \<open>today\<close> for the date.\<close>

definition form_project_id :: "string \<Rightarrow> string" where
  "form_project_id project_name =
     replace CHR ''-'' CHR ''_'' (replace CHR '' '' CHR ''_'' (lower project_name))"

definition form_manifest :: "string \<Rightarrow> string \<Rightarrow> string \<Rightarrow> string \<Rightarrow> json" where
  "form_manifest project_name project_type st today =
     JObj [(''projectName'', JStr project_name),
           (''projectType'', JStr project_type),
           (''leadStrategist'', JStr ''Dashboard User''),
           (''leadArchitect'', JStr ''Foundry OS''),
           (''status'', JStr st),
           (''description'', JStr (''Project created via dashboard on '' @ today)),
           (''metrics'', JObj [(''startDate'', JStr today)]),
           (''tasks'', JObj [(''active'', JArr []), (''completed'', JArr [])])]"

definition form_create :: "hub \<Rightarrow> string \<Rightarrow> string \<Rightarrow> string \<Rightarrow> string \<Rightarrow> string \<Rightarrow> hub" where
  "form_create H project_name project_type st today now =
     (if project_name = [] then H
      else case projects_dir H of
             None \<Rightarrow> H
           | Some files \<Rightarrow>
               H\<lparr>projects_dir :=
                    Some (write_file files (form_project_id project_name @ ''.json'')
                            (Document (form_manifest project_name project_type st today)) now)\<rparr>)"

subsection \<open>assign_task (foundry_v11.py)\<close>






section \<open>Notions used in the statements\<close>

fun is_object :: "json \<Rightarrow> bool" where
  "is_object (JObj d) = True"
| "is_object _ = False"

text \<open>
  The count as the specification words it: a file of the directory listing that parses
  as valid JSON and, when a schema is configured, validates against it.
\<close>

definition parses_and_validates :: "foundry \<Rightarrow> hub_file \<Rightarrow> bool" where
  "parses_and_validates F f =
     (case content f of Garbage \<Rightarrow> False | Document j \<Rightarrow> \<not> schema_rejects F j)"

text \<open>The files the loop of \<open>discover_projects\<close> keeps: those that moreover hold a dict.\<close>

definition accepted :: "foundry \<Rightarrow> hub_file \<Rightarrow> bool" where
  "accepted F f =
     (case content f of Garbage \<Rightarrow> False | Document j \<Rightarrow> \<not> schema_rejects F j \<and> is_object j)"

text \<open>The project a kept file becomes: its document and the two derived fields.\<close>

definition with_metadata :: "foundry \<Rightarrow> hub_file \<Rightarrow> dict" where
  "with_metadata F f =
     (case content f of
        Document (JObj d) \<Rightarrow>
          dict_set (dict_set d ''_manifest_file'' (JStr (manifest_path F f)))
            ''_last_modified'' (JStr (mtime f))
      | _ \<Rightarrow> [])"

text \<open>The line logged for a file that is skipped.\<close>

definition diagnostic :: "foundry \<Rightarrow> hub_file \<Rightarrow> log_entry" where
  "diagnostic F f =
     (case content f of
        Garbage \<Rightarrow> InvalidJSON (manifest_path F f)
      | Document j \<Rightarrow>
          if schema_rejects F j then InvalidSchema (manifest_path F f)
          else FailedToLoad (manifest_path F f))"

text \<open>The manifests read from a listing, in the order of the listing.\<close>

definition manifests :: "foundry \<Rightarrow> hub_file list \<Rightarrow> dict list" where
  "manifests F files = map (with_metadata F) (filter (accepted F) (glob_json files))"

definition skipped :: "foundry \<Rightarrow> hub_file list \<Rightarrow> hub_file list" where
  "skipped F files = filter (\<lambda>f. \<not> accepted F f) (glob_json files)"

text \<open>The name a project is sorted and looked up by, when it is a string or missing.\<close>

definition name_str :: "dict \<Rightarrow> string" where
  "name_str x = the_str (name_key x)"

definition names_are_strings :: "dict list \<Rightarrow> bool" where
  "names_are_strings ps = list_all (\<lambda>x. is_str (name_key x)) ps"

text \<open>A store with no manifest: no directory, or no file in it that the scan keeps.\<close>

definition no_manifest_files :: "foundry \<Rightarrow> hub \<Rightarrow> bool" where
  "no_manifest_files F H =
     (case projects_dir H of None \<Rightarrow> True | Some files \<Rightarrow> manifests F files = [])"










section \<open>Example stores\<close>

text \<open>A controller without a schema, and one whose schema requires the key \<open>status\<close>.\<close>

definition plain_foundry :: foundry where
  "plain_foundry = \<lparr>schema = None, agents = [''architect_specialist''], projects_path = ''projects''\<rparr>"

definition strict_foundry :: foundry where
  "strict_foundry =
     \<lparr>schema = Some (\<lambda>j. case j of JObj d \<Rightarrow> map_of d ''status'' \<noteq> None | _ \<Rightarrow> True),
      agents = [''architect_specialist''], projects_path = ''projects''\<rparr>"

text \<open>The three names of the sorting example, in the order \<open>Zeta\<close>, \<open>alpha\<close>, \<open>Beta\<close>.\<close>

definition three_files :: "hub_file list" where
  "three_files =
     [\<lparr>fname = ''zeta.json'', content = Document (JObj [(''projectName'', JStr ''Zeta'')]),
       mtime = ''2024-03-01T09:00:00''\<rparr>,
      \<lparr>fname = ''alpha.json'', content = Document (JObj [(''projectName'', JStr ''alpha'')]),
       mtime = ''2024-03-02T09:00:00''\<rparr>,
      \<lparr>fname = ''beta.json'', content = Document (JObj [(''projectName'', JStr ''Beta'')]),
       mtime = ''2024-03-03T09:00:00''\<rparr>]"

definition three_hub :: hub where
  "three_hub = \<lparr>projects_dir = Some three_files, shared_context = [], hub_log = []\<rparr>"

text \<open>The two manifests of the specification's end-to-end example.\<close>

definition acme :: json where
  "acme = JObj [(''projectName'', JStr ''Acme''), (''status'', JStr ''production''),
                (''metrics'', JObj [(''revenue'', JStr ''$1,000'')]),
                (''team'', JArr [JStr ''alice''])]"

definition beta :: json where
  "beta = JObj [(''projectName'', JStr ''Beta''), (''status'', JStr ''archived''),
                (''metrics'', JObj [(''revenue'', JStr ''$500'')]),
                (''team'', JArr [JStr ''alice''])]"

definition two_files :: "hub_file list" where
  "two_files =
     [\<lparr>fname = ''acme.json'', content = Document acme, mtime = ''2024-03-01T09:00:00''\<rparr>,
      \<lparr>fname = ''beta.json'', content = Document beta, mtime = ''2024-03-02T09:00:00''\<rparr>]"

definition two_hub :: hub where
  "two_hub = \<lparr>projects_dir = Some two_files, shared_context = [], hub_log = []\<rparr>"

text \<open>
  A directory with a good manifest, text that is not JSON, a document without
  \<open>status\<close>, a JSON list, a manifest without a name, and a file that is no \<open>.json\<close>.
\<close>

definition mixed_files :: "hub_file list" where
  "mixed_files =
     [\<lparr>fname = ''acme.json'', content = Document acme, mtime = ''2024-03-01T09:00:00''\<rparr>,
      \<lparr>fname = ''broken.json'', content = Garbage, mtime = ''2024-03-02T09:00:00''\<rparr>,
      \<lparr>fname = ''draft.json'', content = Document (JObj [(''projectName'', JStr ''Draft'')]),
       mtime = ''2024-03-03T09:00:00''\<rparr>,
      \<lparr>fname = ''notes.json'', content = Document (JArr [JStr ''todo'']),
       mtime = ''2024-03-04T09:00:00''\<rparr>,
      \<lparr>fname = ''anon.json'', content = Document (JObj [(''status'', JStr ''planning'')]),
       mtime = ''2024-03-05T09:00:00''\<rparr>,
      \<lparr>fname = ''README.md'', content = Garbage, mtime = ''2024-03-06T09:00:00''\<rparr>]"

definition mixed_hub :: hub where
  "mixed_hub = \<lparr>projects_dir = Some mixed_files, shared_context = [], hub_log = []\<rparr>"

text \<open>No directory at all.\<close>

definition empty_hub :: hub where
  "empty_hub = \<lparr>projects_dir = None, shared_context = [], hub_log = []\<rparr>"

text \<open>\<open>str\<close> of a container, for the examples, none of which reaches it.\<close>

definition no_repr :: "json \<Rightarrow> string" where
  "no_repr v = []"

section \<open>Revenue parsing: what holds and where it raises\<close>

lemma float_of_int_small: "\<bar>n\<bar> < 2 ^ 1024 - 2 ^ 970 \<Longrightarrow> float_of_int n = Inr (of_int n)"
  by (simp add: float_of_int_def)

lemma parse_revenue_str: "\<exists>r. parse_revenue py_str (JStr s) = Inr r"
  by (auto simp: parse_revenue_def Let_def split: option.splits)

lemma parse_revenue_list: "\<exists>r. parse_revenue py_str (JArr xs) = Inr r"
  by (auto simp: parse_revenue_def Let_def split: option.splits)

lemma parse_revenue_dict: "\<exists>r. parse_revenue py_str (JObj d) = Inr r"
  by (auto simp: parse_revenue_def Let_def split: option.splits)

lemma parse_revenue_float: "parse_revenue py_str (JFloat r) = Inr r"
  by (simp add: parse_revenue_def)

lemma parse_revenue_int:
  "\<bar>n\<bar> < 2 ^ 1024 - 2 ^ 970 \<Longrightarrow> parse_revenue py_str (JInt n) = Inr (of_int n)"
  by (simp add: parse_revenue_def float_of_int_def)

lemma parse_revenue_falsy: "\<not> truthy v \<Longrightarrow> parse_revenue py_str v = Inr 0"
  by (simp add: parse_revenue_def)

lemmas parse_eval =
  parse_revenue_def re_sub_clean_def keep_char_def is_digit_def float_of_str_def
  float_of_unsigned_def digits_val_def digit_val_def float_of_int_def

lemma parse_revenue_examples:
  "parse_revenue py_str (JStr ''$1,234.50'') = Inr (2469 / 2)"
  "parse_revenue py_str (JStr []) = Inr 0"
  "parse_revenue py_str (JStr ''N/A'') = Inr 0"
  "parse_revenue py_str (JInt 42) = Inr 42"
  by (simp_all add: parse_eval)


text \<open>
  The revenue step of \<open>get_empire_status\<close> on the specification's example, with
  \<open>float_of_str\<close> for \<open>float\<close>: the same totals, and \<open>revenue_projects\<close> is the number 2.
\<close>

lemma status_example:
  "map_sum id (\<lambda>s. (es_total_projects s, es_active_projects s, es_total_revenue s,
                    es_revenue_projects s, es_agent_workload s))
     (fst (get_empire_status float_of_str plain_foundry two_hub))
   = Inr (2, 1, 1500, 2, [(JStr ''alice'', 1)])"
  by code_simp

text \<open>
  C1. The claim: revenue parsing is total and never raises; a numeric value is passed
  through as a float, and so \<open>42\<close> gives \<open>42.0\<close> in the revenue step of the aggregation.
  On the code this fails twice. In \<open>parse_revenue\<close>, a revenue that is an integer too
  large for a double, such as the 401-digit \<open>10^400\<close> (which \<open>json.load\<close> reads as an
  int), is true and an int, so \<open>float(revenue_str)\<close> runs outside the \<open>try\<close> and raises
  OverflowError. In \<open>get_empire_status\<close>, whose revenue step does not call
  \<open>parse_revenue\<close>, the revenue \<open>42\<close> is true and has no \<open>startswith\<close>: AttributeError.
  The string branch of \<open>parse_revenue\<close> and the four examples of the claim behave as
  it says (\<open>parse_revenue_str\<close>, \<open>parse_revenue_examples\<close>).
\<close>

theorem revenue_parsing_can_raise:
  "parse_revenue py_str (JInt (10 ^ 400)) = Inl OverflowError
   \<and> fst (get_empire_status py_float plain_foundry
        \<lparr>projects_dir = Some [\<lparr>fname = ''shop.json'',
            content = Document (JObj [(''projectName'', JStr ''Shop''),
                                      (''metrics'', JObj [(''revenue'', JInt 42)])]),
            mtime = ''2024-03-01T09:00:00''\<rparr>],
         shared_context = [], hub_log = []\<rparr>) = Inl AttributeError"
  by (simp add: parse_revenue_def float_of_int_def get_empire_status_def discover_projects_def
        glob_json_def is_json_name_def load_manifest_def plain_foundry_def schema_rejects_def
        sorted_by_name_def empire_status_of_def and_then_def get_or_def)

section \<open>Discovery\<close>



lemma load_accepted: "accepted F f \<Longrightarrow> load_manifest F f = Inr (with_metadata F f)"
  by (auto simp: accepted_def load_manifest_def with_metadata_def
           split: file_content.splits json.splits)

lemma load_rejected: "\<not> accepted F f \<Longrightarrow> load_manifest F f = Inl (diagnostic F f)"
  by (auto simp: accepted_def load_manifest_def diagnostic_def
           split: file_content.splits json.splits)

lemma scan_eq:
  "scan F fs = (map (with_metadata F) (filter (accepted F) fs),
                map (diagnostic F) (filter (\<lambda>f. \<not> accepted F f) fs))"
  by (induction fs) (auto simp: load_accepted load_rejected)

lemma sort_key_short: "length xs \<le> 1 \<Longrightarrow> sort_key f xs = xs"
  by (cases xs) auto

lemma name_str_eq: "(\<lambda>x. the_str (name_key x)) = name_str"
  by (simp add: fun_eq_iff name_str_def)

lemma sorted_by_name_strings:
  "names_are_strings ps \<Longrightarrow> sorted_by_name ps = Inr (sort_key name_str ps)"
  by (auto simp: names_are_strings_def sorted_by_name_def sort_key_short name_str_eq)


lemma discover_eq:
  "projects_dir H = Some files \<Longrightarrow>
   discover_projects F H =
     (sorted_by_name (manifests F files),
      H\<lparr>hub_log := hub_log H @ map (diagnostic F) (skipped F files)\<rparr>)"
  by (simp add: discover_projects_def scan_eq manifests_def skipped_def)

lemma discover_missing: "projects_dir H = None \<Longrightarrow> discover_projects F H = (Inr [], H)"
  by (simp add: discover_projects_def)




section \<open>What total_projects counts\<close>

lemma and_then_Inr: "and_then r f = Inr y \<longleftrightarrow> (\<exists>x. r = Inr x \<and> f x = Inr y)"
  by (cases r) (auto simp: and_then_def)

lemma empire_analytics_projects:
  "empire_analytics py_str ps = Inr a \<Longrightarrow> total_projects a = length ps \<and> projects a = ps"
  by (auto simp: empire_analytics_def and_then_Inr)

lemma get_empire_analytics_Inr:
  "get_empire_analytics py_str F H = (Inr a, H') \<Longrightarrow>
     \<exists>ps. discover_projects F H = (Inr ps, H') \<and> empire_analytics py_str ps = Inr a"
  by (auto simp: get_empire_analytics_def split: prod.splits sum.splits)

text \<open>
  The count as the specification words it fails on a file that holds valid JSON which is not a
  dict. With no schema configured, \<open>notes.json\<close> holding the list \<open>[]\<close> parses and has
  nothing to validate against, so the claim counts it; the code cannot store the two
  derived fields in a list (TypeError), the last handler logs the file as failed to
  load, and \<open>total_projects\<close> is 0.
\<close>

theorem valid_json_list_not_counted:
  "map_sum id total_projects
     (fst (get_empire_analytics no_repr plain_foundry
        \<lparr>projects_dir = Some [\<lparr>fname = ''notes.json'', content = Document (JArr []),
                                 mtime = ''2024-03-04T09:00:00''\<rparr>],
         shared_context = [], hub_log = []\<rparr>)) = Inr 0
   \<and> length (filter (parses_and_validates plain_foundry)
        (glob_json [\<lparr>fname = ''notes.json'', content = Document (JArr []),
                     mtime = ''2024-03-04T09:00:00''\<rparr>])) = 1"
  by (simp add: get_empire_analytics_def discover_projects_def glob_json_def is_json_name_def
        load_manifest_def schema_rejects_def sorted_by_name_def empire_analytics_def and_then_def
        parses_and_validates_def initial_task_distribution_def plain_foundry_def)

text \<open>
  C2, as amended. For every directory listing whose kept manifests have a string for
  \<open>projectName\<close> (or none), discovery returns, and \<open>total_projects\<close> is the number of
  \<open>*.json\<close> files that parse as a JSON object (a dict) and, when a schema is
  configured, validate against it. Every other \<open>*.json\<close> file is left out and gets
  exactly one log line, in the order of the scan: \<open>InvalidJSON\<close> for a parse error,
  \<open>InvalidSchema\<close> for a schema violation, \<open>FailedToLoad\<close> for valid JSON that is not a
  dict (\<open>diagnostic\<close>). The count depends on the kept files only, so a skipped file
  neither ends the scan nor changes it.
\<close>

theorem total_projects_counts_loaded_dicts:
  assumes "projects_dir H = Some files" and "names_are_strings (manifests F files)"
  shows "(\<exists>ps. discover_projects F H =
               (Inr ps, H\<lparr>hub_log := hub_log H @ map (diagnostic F) (skipped F files)\<rparr>)
             \<and> length ps = length (filter (accepted F) (glob_json files)))
         \<and> (\<forall>a H'. get_empire_analytics py_str F H = (Inr a, H') \<longrightarrow>
               total_projects a = length (filter (accepted F) (glob_json files)))"
proof -
  have d: "discover_projects F H =
      (Inr (sort_key name_str (manifests F files)),
       H\<lparr>hub_log := hub_log H @ map (diagnostic F) (skipped F files)\<rparr>)"
    using assms by (simp add: discover_eq sorted_by_name_strings)
  have l: "length (sort_key name_str (manifests F files)) =
      length (filter (accepted F) (glob_json files))"
    by (simp add: manifests_def)
  show ?thesis
  proof (intro conjI allI impI)
    show "\<exists>ps. discover_projects F H =
               (Inr ps, H\<lparr>hub_log := hub_log H @ map (diagnostic F) (skipped F files)\<rparr>)
             \<and> length ps = length (filter (accepted F) (glob_json files))"
      using d l by blast
  next
    fix a H' assume "get_empire_analytics py_str F H = (Inr a, H')"
    then obtain ps where "discover_projects F H = (Inr ps, H')" "empire_analytics py_str ps = Inr a"
      using get_empire_analytics_Inr by blast
    then show "total_projects a = length (filter (accepted F) (glob_json files))"
      using d l empire_analytics_projects by fastforce
  qed
qed

text \<open>
  On \<open>mixed_files\<close> with the schema that requires \<open>status\<close>: three files parse and
  validate, two of them are dicts and are counted, and the three skipped files are logged
  with three different lines.
\<close>

theorem total_projects_counts_loaded_dicts_witness:
  "projects_dir mixed_hub = Some mixed_files
   \<and> names_are_strings (manifests strict_foundry mixed_files)
   \<and> length (filter (parses_and_validates strict_foundry) (glob_json mixed_files)) = 3
   \<and> map_sum id length (fst (discover_projects strict_foundry mixed_hub)) = Inr 2
   \<and> hub_log (snd (discover_projects strict_foundry mixed_hub)) =
       [InvalidJSON ''projects/broken.json'', InvalidSchema ''projects/draft.json'',
        FailedToLoad ''projects/notes.json'']"
proof -
  have h1: "projects_dir mixed_hub = Some mixed_files"
    by (simp add: mixed_hub_def)
  have h2: "names_are_strings (manifests strict_foundry mixed_files)"
    by code_simp
  have n: "length (filter (accepted strict_foundry) (glob_json mixed_files)) = 2"
    by code_simp
  have m: "length (filter (parses_and_validates strict_foundry) (glob_json mixed_files)) = 3"
    by code_simp
  have l: "map (diagnostic strict_foundry) (skipped strict_foundry mixed_files) =
       [InvalidJSON ''projects/broken.json'', InvalidSchema ''projects/draft.json'',
        FailedToLoad ''projects/notes.json'']"
    by code_simp
  from total_projects_counts_loaded_dicts [OF h1 h2] obtain ps where
    "discover_projects strict_foundry mixed_hub =
       (Inr ps, mixed_hub\<lparr>hub_log := hub_log mixed_hub @
          map (diagnostic strict_foundry) (skipped strict_foundry mixed_files)\<rparr>)"
    "length ps = length (filter (accepted strict_foundry) (glob_json mixed_files))"
    by blast
  then show ?thesis
    using h1 h2 n m l by (simp add: mixed_hub_def)
qed

section \<open>The loops of the aggregation return on well-typed manifests\<close>














section \<open>Agent workload\<close>

text \<open>The specification's example: one active and one archived project, both with alice.\<close>

lemma example_agent_workload:
  "map_sum id agent_workload (fst (get_empire_analytics no_repr plain_foundry two_hub))
     = Inr [(JStr ''alice'', 1)]"
  by code_simp

lemma example_totals:
  "map_sum id (\<lambda>a. (total_projects a, active_projects a, total_revenue a))
     (fst (get_empire_analytics no_repr plain_foundry two_hub)) = Inr (2, 1, 1500)"
  by code_simp

text \<open>The loop of \<open>get_empire_status\<close> counts the entries of \<open>team\<close> in the same way.\<close>

lemma status_duplicate_team_entry:
  "map_sum id es_agent_workload
     (empire_status_of py_float
        [[(''projectName'', JStr ''Solo''), (''status'', JStr ''development''),
          (''team'', JArr [JStr ''alice'', JStr ''alice''])]])
   = Inr [(JStr ''alice'', 2)]"
  by (simp add: empire_status_of_def and_then_def get_or_def status_key_def
        count_key_def key_eq_def is_active_def strip_currency_def split: option.splits)

text \<open>
  C4. The claim: a project that lists an agent, once or more, adds one to the agent's
  count. The loop adds one for every entry of \<open>team\<close>, so a project that lists alice
  twice adds two, while both callers present the number as a count of projects
  (\<open>{count} project(s)\<close> in the command \<open>status\<close>, \<open>Projects per Agent\<close> in the
  dashboard).
\<close>

theorem duplicate_team_entry_counted_twice:
  "map_sum id agent_workload
     (empire_analytics py_str
        [[(''projectName'', JStr ''Solo''), (''status'', JStr ''development''),
          (''team'', JArr [JStr ''alice'', JStr ''alice''])]])
   = Inr [(JStr ''alice'', 2)]"
  by (simp add: empire_analytics_def and_then_def get_or_def parse_revenue_def status_key_def
        count_key_def key_eq_def is_active_def initial_task_distribution_def)

section \<open>The empty store\<close>

lemma empire_analytics_Nil:
  "empire_analytics py_str [] =
     Inr \<lparr>total_projects = 0, active_projects = 0, total_revenue = 0, revenue_projects = [],
          status_distribution = [], agent_workload = [],
          task_distribution = initial_task_distribution, projects = []\<rparr>"
  by (simp add: empire_analytics_def and_then_def)

text \<open>
  With no directory the aggregation counts no project, and \<open>task_distribution\<close> is not
  empty: it starts as \<open>{'high': 0, 'medium': 0, 'low': 0, 'critical': 0}\<close> and nothing
  is added.
\<close>

theorem task_distribution_never_empty:
  "map_sum id total_projects (fst (get_empire_analytics no_repr plain_foundry empty_hub)) = Inr 0
   \<and> map_sum id task_distribution (fst (get_empire_analytics no_repr plain_foundry empty_hub))
       = Inr [(JStr ''high'', 0), (JStr ''medium'', 0), (JStr ''low'', 0), (JStr ''critical'', 0)]
   \<and> map_sum id task_distribution (fst (get_empire_analytics no_repr plain_foundry empty_hub))
       \<noteq> Inr []"
  by (simp add: get_empire_analytics_def discover_projects_def empty_hub_def empire_analytics_Nil
        initial_task_distribution_def)

text \<open>
  C9, as amended. For a missing directory, and for a directory in which the scan keeps
  no file, the aggregation returns \<open>total_projects = 0\<close>, no manifest, empty
  \<open>status_distribution\<close> and \<open>agent_workload\<close>, and a \<open>task_distribution\<close> that maps each
  of the four priorities \<open>high\<close>, \<open>medium\<close>, \<open>low\<close>, \<open>critical\<close> to 0; the directory is
  left as it is.
\<close>

theorem empty_store_analytics:
  assumes "no_manifest_files F H"
  shows "fst (get_empire_analytics py_str F H) =
           Inr \<lparr>total_projects = 0, active_projects = 0, total_revenue = 0,
                revenue_projects = [], status_distribution = [], agent_workload = [],
                task_distribution =
                  [(JStr ''high'', 0), (JStr ''medium'', 0), (JStr ''low'', 0),
                   (JStr ''critical'', 0)],
                projects = []\<rparr>
         \<and> projects_dir (snd (get_empire_analytics py_str F H)) = projects_dir H"
proof (cases "projects_dir H")
  case None
  then show ?thesis
    by (simp add: get_empire_analytics_def discover_missing empire_analytics_Nil
          initial_task_distribution_def)
next
  case (Some files)
  with assms have "manifests F files = []"
    by (simp add: no_manifest_files_def)
  then show ?thesis
    using Some
    by (simp add: get_empire_analytics_def discover_eq sorted_by_name_def empire_analytics_Nil
          initial_task_distribution_def)
qed

theorem empty_store_analytics_witness:
  "no_manifest_files plain_foundry empty_hub
   \<and> no_manifest_files strict_foundry
        \<lparr>projects_dir = Some [\<lparr>fname = ''broken.json'', content = Garbage,
                                 mtime = ''2024-03-02T09:00:00''\<rparr>],
         shared_context = [], hub_log = []\<rparr>
   \<and> map_sum id total_projects (fst (get_empire_analytics no_repr plain_foundry empty_hub)) = Inr 0
   \<and> map_sum id agent_workload (fst (get_empire_analytics no_repr plain_foundry empty_hub)) = Inr []
   \<and> map_sum id status_distribution (fst (get_empire_analytics no_repr plain_foundry empty_hub))
       = Inr []"
proof -
  have h: "no_manifest_files plain_foundry empty_hub"
    by (simp add: no_manifest_files_def empty_hub_def)
  have h': "no_manifest_files strict_foundry
        \<lparr>projects_dir = Some [\<lparr>fname = ''broken.json'', content = Garbage,
                                 mtime = ''2024-03-02T09:00:00''\<rparr>],
         shared_context = [], hub_log = []\<rparr>"
    by code_simp
  from empty_store_analytics [OF h, of no_repr] show ?thesis
    using h h' by simp
qed

section \<open>Creating projects\<close>

lemma of_char_lower_char:
  "(of_char (lower_char c) :: nat) =
     (if 65 \<le> (of_char c :: nat) \<and> (of_char c :: nat) \<le> 90 then of_char c + 32 else of_char c)"
  by (simp add: lower_char_def)

lemma lower_char_space [simp]: "lower_char c = CHR '' '' \<longleftrightarrow> c = CHR '' ''"
proof -
  have "lower_char c = CHR '' '' \<longleftrightarrow> (of_char (lower_char c) :: nat) = of_char CHR '' ''"
    by (simp only: of_char_eq_iff)
  also have "\<dots> \<longleftrightarrow> (of_char c :: nat) = of_char CHR '' ''"
    by (simp add: of_char_lower_char)
  also have "\<dots> \<longleftrightarrow> c = CHR '' ''"
    by (simp only: of_char_eq_iff)
  finally show ?thesis .
qed

lemma lower_char_hyphen [simp]: "lower_char c = CHR ''-'' \<longleftrightarrow> c = CHR ''-''"
proof -
  have "lower_char c = CHR ''-'' \<longleftrightarrow> (of_char (lower_char c) :: nat) = of_char CHR ''-''"
    by (simp only: of_char_eq_iff)
  also have "\<dots> \<longleftrightarrow> (of_char c :: nat) = of_char CHR ''-''"
    by (simp add: of_char_lower_char)
  also have "\<dots> \<longleftrightarrow> c = CHR ''-''"
    by (simp only: of_char_eq_iff)
  finally show ?thesis .
qed

lemma project_id_chars:
  "project_id n = map (\<lambda>c. if c = CHR '' '' then CHR ''_'' else lower_char c) n"
  by (simp add: project_id_def replace_def lower_def)

text \<open>
  The key of the dashboard's form is the name in lower case with every space and every
  hyphen replaced by an underscore.
\<close>

lemma form_project_id_chars:
  "form_project_id n =
     map (\<lambda>c. if c = CHR '' '' \<or> c = CHR ''-'' then CHR ''_'' else lower_char c) n"
  by (simp add: form_project_id_def replace_def lower_def)

lemma file_exists_write_file: "file_exists (write_file files n c t) n"
  by (induction files) (auto simp: file_exists_def)

lemma read_write_file: "read_file (write_file files n c t) n = Some c"
  by (induction files) (auto simp: read_file_def)

lemma read_write_file_other: "n' \<noteq> n \<Longrightarrow> read_file (write_file files n c t) n' = read_file files n'"
  by (induction files) (auto simp: read_file_def)

text \<open>
  The command \<open>new\<close> has the guard: when the file of the derived name exists, it fails
  with "already exists" and the hub is as before; otherwise it writes the manifest
  under that name and nothing else changes.
\<close>

lemma create_project_already_exists:
  assumes "projects_dir H = Some files" and "\<not> schema_rejects F (JObj d)"
    and "get_or d ''projectName'' (JStr ''unknown'') = JStr n"
    and "file_exists files (project_id n @ ''.json'')"
  shows "create_project_from_manifest F H (Some (Document (JObj d))) now =
           (Inl (AlreadyExists (JStr n)), H)"
  using assms by (simp add: create_project_from_manifest_def)

lemma create_project_new:
  assumes "projects_dir H = Some files" and "\<not> schema_rejects F (JObj d)"
    and "get_or d ''projectName'' (JStr ''unknown'') = JStr n"
    and "\<not> file_exists files (project_id n @ ''.json'')"
  shows "create_project_from_manifest F H (Some (Document (JObj d))) now =
           (Inr (JObj d),
            H\<lparr>projects_dir := Some (write_file files (project_id n @ ''.json'') (Document (JObj d)) now),
              hub_log := hub_log H @ [CreatedProject n]\<rparr>)"
  using assms by (simp add: create_project_from_manifest_def)

text \<open>
  C5. The claim: creating a project whose derived file name is already present fails
  with "already exists" and leaves the file as it is. The command \<open>new\<close> does so
  (\<open>create_project_already_exists\<close>), but the dashboard's upload writes without looking:
  with \<open>acme.json\<close> in the directory, uploading a manifest named \<open>ACME\<close> replaces it.
\<close>

theorem upload_overwrites_existing_manifest:
  "read_file two_files ''acme.json'' = Some (Document acme)
   \<and> map_option (\<lambda>files. read_file files ''acme.json'')
        (projects_dir (upload_manifest two_hub
           (Document (JObj [(''projectName'', JStr ''ACME''), (''status'', JStr ''planning'')]))
           ''2024-04-01T12:00:00''))
       = Some (Some (Document (JObj [(''projectName'', JStr ''ACME''), (''status'', JStr ''planning'')])))"
  by code_simp

text \<open>The form of the dashboard replaces an existing file as well.\<close>

lemma form_create_overwrites:
  "map_option (\<lambda>files. read_file files ''acme.json'')
     (projects_dir (form_create two_hub ''Acme'' ''custom'' ''planning'' ''2024-04-01''
        ''2024-04-01T12:00:00''))
   = Some (Some (Document (form_manifest ''Acme'' ''custom'' ''planning'' ''2024-04-01'')))"
  by code_simp

text \<open>
  C6. The claim: the key is the name in lower case with every space and every hyphen
  replaced by an underscore. The form of the dashboard computes that
  (\<open>form_project_id_chars\<close>), but \<open>create_project_from_manifest\<close> replaces spaces only:
  the project \<open>My-App One\<close> is stored as \<open>my-app_one.json\<close>, not \<open>my_app_one.json\<close>.
\<close>

theorem create_keeps_hyphen_in_file_name:
  "project_id ''My-App One'' = ''my-app_one''
   \<and> form_project_id ''My-App One'' = ''my_app_one''
   \<and> map_option (map fname)
        (projects_dir (snd (create_project_from_manifest plain_foundry two_hub
           (Some (Document (JObj [(''projectName'', JStr ''My-App One'')])))
           ''2024-04-01T12:00:00'')))
       = Some [''acme.json'', ''beta.json'', ''my-app_one.json'']"
  by code_simp

section \<open>The order of the discovered manifests\<close>

lemma discover_strings:
  assumes "projects_dir H = Some files" and "names_are_strings (manifests F files)"
  shows "fst (discover_projects F H) = Inr (sort_key name_str (manifests F files))"
  using assms by (simp add: discover_eq sorted_by_name_strings)

text \<open>
  C8. For a directory whose manifests have string names (a missing name counts as the
  empty string), discovery returns the manifests read from the files, each exactly
  once, with their names in ascending order of the strings compared character by
  character (an upper-case letter is below every lower-case one); and the sort is
  stable: manifests of the same name keep the order in which the files were listed.
\<close>

theorem discover_sorted_by_name_stable:
  assumes "projects_dir H = Some files" and "names_are_strings (manifests F files)"
  shows "\<exists>ps. fst (discover_projects F H) = Inr ps
            \<and> mset ps = mset (manifests F files)
            \<and> sorted (map name_str ps)
            \<and> (\<forall>k. filter (\<lambda>p. name_str p = k) ps
                     = filter (\<lambda>p. name_str p = k) (manifests F files))"
proof -
  have "fst (discover_projects F H) = Inr (sort_key name_str (manifests F files))"
    using assms by (rule discover_strings)
  moreover have "mset (sort_key name_str (manifests F files)) = mset (manifests F files)"
    by simp
  moreover have "sorted (map name_str (sort_key name_str (manifests F files)))"
    by (rule sorted_sort_key)
  moreover have "\<forall>k. filter (\<lambda>p. name_str p = k) (sort_key name_str (manifests F files))
                     = filter (\<lambda>p. name_str p = k) (manifests F files)"
    by (simp add: sort_key_stable)
  ultimately show ?thesis by blast
qed

text \<open>
  The example of the specification: files listed as \<open>Zeta\<close>, \<open>alpha\<close>, \<open>Beta\<close> come back
  as \<open>Beta\<close>, \<open>Zeta\<close>, \<open>alpha\<close>.
\<close>

theorem discover_sorted_by_name_stable_witness:
  "projects_dir three_hub = Some three_files
   \<and> names_are_strings (manifests plain_foundry three_files)
   \<and> map name_str (manifests plain_foundry three_files) = [''Zeta'', ''alpha'', ''Beta'']
   \<and> map_sum id (map name_str) (fst (discover_projects plain_foundry three_hub))
       = Inr [''Beta'', ''Zeta'', ''alpha'']"
proof -
  have h1: "projects_dir three_hub = Some three_files"
    by (simp add: three_hub_def)
  have h2: "names_are_strings (manifests plain_foundry three_files)"
    by code_simp
  have n: "map name_str (manifests plain_foundry three_files) = [''Zeta'', ''alpha'', ''Beta'']"
    by code_simp
  from discover_sorted_by_name_stable [OF h1 h2] obtain ps where
    d: "fst (discover_projects plain_foundry three_hub) = Inr ps"
    and m: "mset ps = mset (manifests plain_foundry three_files)"
    and s: "sorted (map name_str ps)"
    by blast
  from m have "mset (map name_str ps) = mset [''Zeta'', ''alpha'', ''Beta'']"
    using n by (metis mset_map)
  moreover have "sorted [''Beta'', ''Zeta'', ''alpha'']"
    by code_simp
  moreover have "mset [''Beta'', ''Zeta'', ''alpha''] = mset [''Zeta'', ''alpha'', ''Beta'']"
    by (simp add: add.commute)
  ultimately have "map name_str ps = [''Beta'', ''Zeta'', ''alpha'']"
    using s by (metis properties_for_sort sorted_sort_id)
  then show ?thesis
    using h1 h2 n d by simp
qed

section \<open>Lookup by name\<close>

lemma lower_Nil_iff [simp]: "lower s = [] \<longleftrightarrow> s = []"
  by (simp add: lower_def)










section \<open>Assigning a task\<close>













end
